theory Spec2Isabelle
  imports Complex_Main "HOL-Library.Word"
begin

section \<open>Data model of district.py\<close>

text \<open>
  The pipeline of \<^verbatim>\<open>district.py\<close> works on pandas frames. A frame is modelled by the
  list of its rows, in row order; duplicates are kept, since neither \<^verbatim>\<open>pd.concat\<close> nor
  \<^verbatim>\<open>DataFrame.join\<close> removes them.

  A cell read from JSON is a null (\<^verbatim>\<open>None\<close>/\<^verbatim>\<open>NaN\<close>), a 64-bit integer (read as
  signed, by \<open>sint\<close>) or a string. A scraped cell that holds a fractional number, or an
  integer that does not fit 64 bits, is outside the model. A character of a string stands
  for the code point of the same number; code points from 256 on are outside the model.
  Latitudes and longitudes are floats or nulls; no arithmetic is done on them by the
  program, so a float is modelled by the real number it denotes and a null by \<open>None\<close>.

  The encoding of the JSON files is outside the model: a file is modelled by the frame
  that \<^verbatim>\<open>pd.read_json\<close> makes of it.
\<close>

datatype cell = Null | Num "64 word" | Str string

text \<open>
  The exceptions. The class of an exception raised by a conversion of lines 67-75
  (\<^verbatim>\<open>ValueError\<close>, \<^verbatim>\<open>TypeError\<close>, \<^verbatim>\<open>AttributeError\<close> or \<^verbatim>\<open>OverflowError\<close>)
  depends on the dtype that pandas has inferred for the column, which the model does not
  hold: \<open>ConversionError\<close> stands for any of them.
\<close>

datatype error =
    FileNotFoundError | KeyError | ValueError | AttributeError | ConnectionError
  | ConversionError

text \<open>
  A row of the coordinate frame: the index label, \<^verbatim>\<open>lat\<close>, \<^verbatim>\<open>lng\<close>. The labels are
  the values of the address column that the frame was built from: their type is a
  parameter of \<^verbatim>\<open>get_coordinates\<close>, and is \<open>cell\<close> where the frame is joined to the
  price frame.
\<close>

type_synonym 'a coordinate_row = "'a \<times> real option \<times> real option"

type_synonym coordinates_frame = "cell coordinate_row list"

definition index_of :: "('k \<times> 'v) list \<Rightarrow> 'k set" where
  "index_of df = fst ` set df"

definition lat_of :: "'a coordinate_row \<Rightarrow> real option" where
  "lat_of row = fst (snd row)"

definition lng_of :: "'a coordinate_row \<Rightarrow> real option" where
  "lng_of row = snd (snd row)"

section \<open>get_coordinates (district.py, lines 38-54)\<close>

text \<open>
  The geocoding client is a parameter: \<^verbatim>\<open>gmaps.geocode(address=building, region='HK')\<close>
  answers with a list of results, each carrying a location; the empty list is "no match".
  The list of addresses the client has been called with is threaded through as explicit
  state, so that each network call of the source is one entry of that list.
\<close>

type_synonym location = "real \<times> real"

type_synonym 'a geocoder = "'a \<Rightarrow> location list"

text \<open>
  The nested function \<^verbatim>\<open>get_coordinates(building)\<close> of lines 40-43: one call of the
  client, and the pair \<^verbatim>\<open>0,0\<close> when the answer is empty.
\<close>

definition get_coordinates_inner ::
  "'a geocoder \<Rightarrow> 'a \<Rightarrow> 'a list \<Rightarrow> (real option \<times> real option) \<times> 'a list"
where
  "get_coordinates_inner gmaps building calls =
     (let geocode_result = gmaps building;
          calls' = calls @ [building]
      in case geocode_result of
           [] \<Rightarrow> ((Some 0, Some 0), calls')
         | loc # _ \<Rightarrow> ((Some (fst loc), Some (snd loc)), calls'))"

text \<open>\<^verbatim>\<open>Series.apply(f)\<close>: \<open>f\<close> is called once on each element, in order.\<close>

fun series_apply :: "('a \<Rightarrow> 's \<Rightarrow> 'b \<times> 's) \<Rightarrow> 'a list \<Rightarrow> 's \<Rightarrow> 'b list \<times> 's" where
  "series_apply f [] s = ([], s)"
| "series_apply f (x # xs) s =
     (case f x s of (y, s') \<Rightarrow>
        (case series_apply f xs s' of (ys, s'') \<Rightarrow> (y # ys, s'')))"

text \<open>
  \<^verbatim>\<open>pd.read_json('./data/coordinates.json', orient='index')\<close> is modelled by the frame the
  file holds, \<open>None\<close> when the file does not exist (\<^verbatim>\<open>FileNotFoundError\<close>, caught at
  line 47 and replaced by the empty frame with columns \<^verbatim>\<open>lat\<close>, \<^verbatim>\<open>lng\<close>).
  The result is the returned frame together with the calls made to the geocoding client.
\<close>

definition load_cache :: "'a coordinate_row list option \<Rightarrow> 'a coordinate_row list" where
  "load_cache file = (case file of Some df \<Rightarrow> df | None \<Rightarrow> [])"

definition get_coordinates ::
  "'a geocoder \<Rightarrow> 'a coordinate_row list option \<Rightarrow> 'a list \<Rightarrow> 'a coordinate_row list \<times> 'a list"
where
  "get_coordinates gmaps file buildingaddress =
     (let coordinates_df = load_cache file;
          buildings_to_get = filter (\<lambda>b. b \<notin> index_of coordinates_df) buildingaddress
      in if buildings_to_get = [] then (coordinates_df, [])
         else
           (case series_apply (get_coordinates_inner gmaps) buildings_to_get [] of
              (fetched, calls) \<Rightarrow>
                (let coordinates_df = coordinates_df @ zip buildings_to_get fetched;
                     coordinates_df = filter (\<lambda>row. lat_of row \<noteq> None) coordinates_df
                 in (coordinates_df, calls))))"

section \<open>get_prices (district.py, lines 17-36)\<close>

text \<open>
  A row of the price frame holds the nine columns that \<^verbatim>\<open>combine_and_format_data\<close>
  keeps (line 66). The values come from scraped JSON, so each is a \<open>cell\<close>.
\<close>

record price_row =
  buildingname :: cell
  buildingaddress :: cell
  region :: cell
  medianpredprice :: cell
  transactionscount :: cell
  built :: cell
  numberofunits :: cell
  numberoffloors :: cell
  colour :: cell

definition price_columns :: "string list" where
  "price_columns =
     [''buildingname'', ''buildingaddress'', ''region'', ''medianpredprice'',
      ''transactionscount'', ''built'', ''numberofunits'', ''numberoffloors'', ''colour'']"

text \<open>
  The price frame: the labels of its columns and its rows. A frame may lack one of the
  nine columns (\<^verbatim>\<open>pd.DataFrame()\<close> has no column at all) or have others; the program
  then raises or drops the column, and the fields of the rows are read only when the
  nine columns are there.
\<close>

record price_frame =
  columns :: "string list"
  rows :: "price_row list"

text \<open>\<^verbatim>\<open>pd.DataFrame(records)\<close>: the columns are the keys of the records.\<close>

definition frame_of_records :: "price_row list \<Rightarrow> price_frame" where
  "frame_of_records bs = \<lparr> columns = (if bs = [] then [] else price_columns), rows = bs \<rparr>"

text \<open>\<^verbatim>\<open>pd.concat([df1, df2], ignore_index=True)\<close>: the union of the columns.\<close>

definition pd_concat :: "price_frame \<Rightarrow> price_frame \<Rightarrow> price_frame" where
  "pd_concat df1 df2 =
     \<lparr> columns = columns df1 @ filter (\<lambda>c. c \<notin> set (columns df1)) (columns df2),
       rows = rows df1 @ rows df2 \<rparr>"

text \<open>
  The web is a parameter. \<^verbatim>\<open>session.get(url)\<close> answers with a page, or raises
  (\<open>None\<close>). Of a page the program reads the status code, the \<^verbatim>\<open>href\<close>s of the
  anchors of class \<^verbatim>\<open>hk11\<close>, and the \<^verbatim>\<open>pageProps\<close> of the script element
  \<^verbatim>\<open>__NEXT_DATA__\<close> (\<open>None\<close> when the page has no such element): whether it has the
  key \<^verbatim>\<open>statusCode\<close>, and the list under \<^verbatim>\<open>data.buildings\<close> (\<open>None\<close> when that
  key is missing).
\<close>

record page_props =
  has_statusCode :: bool
  buildings :: "price_row list option"

record response =
  status_code :: int
  hk11_links :: "string list"
  next_data :: "page_props option"

type_synonym web = "string \<Rightarrow> response option"

definition base_url :: string where
  "base_url = ''https://truehome.hk''"

text \<open>The loop of lines 29-35; \<open>fetched\<close> is the list of the URLs requested so far.\<close>

fun scrape_neighbourhoods ::
  "web \<Rightarrow> string list \<Rightarrow> price_frame \<Rightarrow> string list \<Rightarrow> (error + price_frame) \<times> string list"
where
  "scrape_neighbourhoods session [] prices_df fetched = (Inr prices_df, fetched)"
| "scrape_neighbourhoods session (neighbourhood_link # links) prices_df fetched =
     (let url = base_url @ neighbourhood_link; fetched' = fetched @ [url]
      in case session url of
           None \<Rightarrow> (Inl ConnectionError, fetched')
         | Some page \<Rightarrow>
             if status_code page \<noteq> 200 then scrape_neighbourhoods session links prices_df fetched'
             else
               (case next_data page of
                  None \<Rightarrow> (Inl AttributeError, fetched')
                | Some props \<Rightarrow>
                    if has_statusCode props
                    then scrape_neighbourhoods session links prices_df fetched'
                    else
                      (case buildings props of
                         None \<Rightarrow> (Inl KeyError, fetched')
                       | Some bs \<Rightarrow>
                           scrape_neighbourhoods session links
                             (pd_concat prices_df (frame_of_records bs)) fetched')))"

text \<open>
  \<open>file\<close> is the frame held by \<^verbatim>\<open>./data/prices.json\<close>, \<open>None\<close> when the file does
  not exist. The result is the returned frame, or the exception, with the URLs requested.
\<close>

definition get_prices ::
  "web \<Rightarrow> price_frame option \<Rightarrow> (error + price_frame) \<times> string list"
where
  "get_prices session file =
     (case file of
        Some prices_df \<Rightarrow> (Inr prices_df, [])
      | None \<Rightarrow>
          (let url = base_url @ ''/prices/neighborhoods''
           in case session url of
                None \<Rightarrow> (Inl ConnectionError, [url])
              | Some home_page \<Rightarrow>
                  scrape_neighbourhoods session (hk11_links home_page)
                    \<lparr> columns = [], rows = [] \<rparr> [url]))"

section \<open>get_districts (district.py, lines 56-60)\<close>

text \<open>
  \<^verbatim>\<open>./data/districts.json\<close> holds, for each district, its list of regions (the
  column \<^verbatim>\<open>regions\<close> of the frame read at line 57, indexed by district); there is
  no fallback when the file is missing. The frame read from a mapping without any district
  has no column, and \<^verbatim>\<open>explode('regions')\<close> raises \<^verbatim>\<open>KeyError\<close>. \<^verbatim>\<open>explode\<close> turns
  a row with a list of \<open>n > 0\<close> regions into \<open>n\<close> rows and a row with the empty list into
  one row with a null region. The returned frame is indexed by region and has the column
  \<^verbatim>\<open>district\<close>.
\<close>

type_synonym districts_frame = "(cell \<times> cell) list"



section \<open>combine_and_format_data (district.py, lines 62-77)\<close>

subsection \<open>The two joins\<close>

record joined_row = price_row +
  lat :: "real option"
  lng :: "real option"
  district :: cell

definition with_coordinates :: "price_row \<Rightarrow> cell coordinate_row \<Rightarrow> cell \<Rightarrow> joined_row" where
  "with_coordinates p c d =
     \<lparr> buildingname = buildingname p, buildingaddress = buildingaddress p, region = region p,
       medianpredprice = medianpredprice p, transactionscount = transactionscount p,
       built = built p, numberofunits = numberofunits p, numberoffloors = numberoffloors p,
       colour = colour p, lat = lat_of c, lng = lng_of c, district = d \<rparr>"

text \<open>
  Line 63, \<^verbatim>\<open>prices_df.join(coordinates_df, on='buildingaddress', how='inner')\<close>: one row
  for each price row and each coordinate row whose index label is that row's address. As
  in every pandas merge, a null key matches a null label. The rows are listed in the order
  of the price frame; no property below depends on that order.
\<close>

definition join_inner :: "price_row list \<Rightarrow> coordinates_frame \<Rightarrow> (price_row \<times> cell coordinate_row) list" where
  "join_inner prices coordinates_df =
     concat (map (\<lambda>p. map (\<lambda>c. (p, c))
                         (filter (\<lambda>c. buildingaddress p = fst c) coordinates_df))
                 prices)"

text \<open>
  Line 64, \<^verbatim>\<open>result_df.join(district_df, on='region')\<close>, a left join: a row whose region
  is no index label of the district frame is kept once, with a null district.
\<close>

definition join_left :: "(price_row \<times> cell coordinate_row) list \<Rightarrow> districts_frame \<Rightarrow> joined_row list" where
  "join_left result_df district_df =
     concat (map (\<lambda>(p, c).
                    (let matches = filter (\<lambda>d. fst d = region p) district_df
                     in if matches = [] then [with_coordinates p c Null]
                        else map (\<lambda>d. with_coordinates p c (snd d)) matches))
                 result_df)"

subsection \<open>Coercion to integers\<close>

definition try_bind :: "error + 'a \<Rightarrow> ('a \<Rightarrow> error + 'b) \<Rightarrow> error + 'b" where
  "try_bind m f = (case m of Inl e \<Rightarrow> Inl e | Inr x \<Rightarrow> f x)"

text \<open>Applying a conversion to every element of a column stops at the first exception.\<close>

fun map_column :: "('a \<Rightarrow> error + 'b) \<Rightarrow> 'a list \<Rightarrow> error + 'b list" where
  "map_column f [] = Inr []"
| "map_column f (x # xs) =
     (case f x of
        Inl e \<Rightarrow> Inl e
      | Inr y \<Rightarrow> (case map_column f xs of Inl e \<Rightarrow> Inl e | Inr ys \<Rightarrow> Inr (y # ys)))"

text \<open>
  Python's \<^verbatim>\<open>int(s)\<close> on a string, base 10: surrounding whitespace is stripped, one sign
  is allowed, and the digits may be grouped by single underscores. The whitespace that
  \<^verbatim>\<open>int\<close> strips is tab, line feed, vertical tab, form feed, carriage return and space,
  and of the code points from 128 to 255 the next-line character and the no-break space;
  the only decimal digits below 256 are \<^verbatim>\<open>0\<close> to \<^verbatim>\<open>9\<close>.
\<close>

definition is_space :: "char \<Rightarrow> bool" where
  "is_space c =
     (c \<in> set [CHR 0x09, CHR 0x0A, CHR 0x0B, CHR 0x0C, CHR 0x0D, CHR 0x20, CHR 0x85, CHR 0xA0])"

definition strip :: "string \<Rightarrow> string" where
  "strip s = rev (dropWhile is_space (rev (dropWhile is_space s)))"

definition digit_val :: "char \<Rightarrow> nat option" where
  "digit_val c =
     (let n = (of_char c :: nat) in if 48 \<le> n \<and> n \<le> 57 then Some (n - 48) else None)"

fun parse_digits :: "nat \<Rightarrow> string \<Rightarrow> nat option" where
  "parse_digits acc [] = Some acc"
| "parse_digits acc (c # cs) =
     (if c = CHR ''_'' then
        (case cs of
           [] \<Rightarrow> None
         | d # ds \<Rightarrow>
             (case digit_val d of None \<Rightarrow> None | Some v \<Rightarrow> parse_digits (10 * acc + v) ds))
      else
        (case digit_val c of None \<Rightarrow> None | Some v \<Rightarrow> parse_digits (10 * acc + v) cs))"

definition parse_unsigned :: "string \<Rightarrow> nat option" where
  "parse_unsigned s =
     (case s of
        [] \<Rightarrow> None
      | d # ds \<Rightarrow> (case digit_val d of None \<Rightarrow> None | Some v \<Rightarrow> parse_digits v ds))"

definition py_int :: "string \<Rightarrow> int option" where
  "py_int s =
     (case strip s of
        [] \<Rightarrow> None
      | c # cs \<Rightarrow>
          if c = CHR ''-'' then map_option (\<lambda>n. - int n) (parse_unsigned cs)
          else if c = CHR ''+'' then map_option int (parse_unsigned cs)
          else map_option int (parse_unsigned (c # cs)))"

text \<open>
  \<^verbatim>\<open>astype(int)\<close> converts to 64-bit integers: a 64-bit integer is left as it is, a
  null cannot be converted, and a string goes through \<^verbatim>\<open>int\<close>, whose result must fit
  64 bits.
\<close>

definition to_int64 :: "int \<Rightarrow> error + int" where
  "to_int64 n = (if - (2 ^ 63) \<le> n \<and> n < 2 ^ 63 then Inr n else Inl ConversionError)"

fun astype_int :: "cell \<Rightarrow> error + int" where
  "astype_int Null = Inl ConversionError"
| "astype_int (Num n) = Inr (sint n)"
| "astype_int (Str s) = (case py_int s of None \<Rightarrow> Inl ConversionError | Some n \<Rightarrow> to_int64 n)"

subsection \<open>The formatted price\<close>

text \<open>The format \<^verbatim>\<open>f'{x:,d}'\<close> of line 68: decimal digits in groups of three.\<close>

definition digit_char :: "nat \<Rightarrow> char" where
  "digit_char d = ''0123456789'' ! d"

function decimal :: "nat \<Rightarrow> string" where
  "decimal n = (if n < 10 then [digit_char n] else decimal (n div 10) @ [digit_char (n mod 10)])"
  by pat_completeness auto
termination
  by (relation "measure id") auto

definition three_digits :: "nat \<Rightarrow> string" where
  "three_digits n =
     [digit_char (n div 100 mod 10), digit_char (n div 10 mod 10), digit_char (n mod 10)]"

function group_thousands :: "nat \<Rightarrow> string" where
  "group_thousands n =
     (if n < 1000 then decimal n
      else group_thousands (n div 1000) @ '','' @ three_digits (n mod 1000))"
  by pat_completeness auto
termination
  by (relation "measure id") auto

definition format_comma_d :: "int \<Rightarrow> string" where
  "format_comma_d x =
     (if x < 0 then ''-'' @ group_thousands (nat (- x)) else group_thousands (nat x))"

subsection \<open>The colour channels\<close>

text \<open>Python's \<^verbatim>\<open>s.split(sep)\<close> for a one-character separator.\<close>

fun str_split :: "char \<Rightarrow> string \<Rightarrow> string list" where
  "str_split sep [] = [[]]"
| "str_split sep (c # cs) =
     (if c = sep then [] # str_split sep cs
      else (case str_split sep cs of
              [] \<Rightarrow> [[c]]
            | part # parts \<Rightarrow> (c # part) # parts))"

text \<open>
  Line 69 is one statement,
  \<^verbatim>\<open>result_df[['r', 'g', 'b']] = result_df['colour'].str.split(',', expand=True).astype(int)\<close>,
  modelled in three steps. The split frame has as many columns as the longest split; a
  shorter split is padded with nulls, a cell that is no string gives a row of nulls, and a
  column without rows gives a frame without columns. Where the colour column has no string
  dtype the accessor \<^verbatim>\<open>.str\<close> raises at once; such a column has no row or holds no
  string, and then the steps below raise as well, so that the statement raises in the
  model exactly when it does in the program.
\<close>

definition expand_width :: "string list option list \<Rightarrow> nat" where
  "expand_width parts =
     fold max (map (\<lambda>p. case p of None \<Rightarrow> 1 | Some ps \<Rightarrow> length ps) parts) 0"

definition str_split_expand :: "cell list \<Rightarrow> string option list list" where
  "str_split_expand col =
     (let parts = map (\<lambda>c. case c of Str s \<Rightarrow> Some (str_split CHR '','' s) | _ \<Rightarrow> None) col;
          width = expand_width parts
      in map (\<lambda>p. case p of
                     None \<Rightarrow> replicate width None
                   | Some ps \<Rightarrow> map Some ps @ replicate (width - length ps) None)
             parts)"

text \<open>\<^verbatim>\<open>.astype(int)\<close> on the split frame: a null cannot be converted.\<close>

definition field_int :: "string option \<Rightarrow> error + int" where
  "field_int f = (case f of None \<Rightarrow> Inl ConversionError | Some s \<Rightarrow> astype_int (Str s))"

definition frame_astype_int :: "string option list list \<Rightarrow> error + int list list" where
  "frame_astype_int expanded = map_column (map_column field_int) expanded"

text \<open>
  The assignment to the three columns raises ("Columns must be same length as key")
  unless the assigned frame has three columns. All rows of the split frame have the same
  length, so the number of columns is read off the first row, and is zero when there is no
  row.
\<close>

definition frame_width :: "'a list list \<Rightarrow> nat" where
  "frame_width xss = (case xss of [] \<Rightarrow> 0 | xs # _ \<Rightarrow> length xs)"

definition assign_rgb :: "int list list \<Rightarrow> error + (int \<times> int \<times> int) list" where
  "assign_rgb channels =
     (if frame_width channels \<noteq> 3 then Inl ConversionError
      else map_column (\<lambda>row. case row of [x, y, z] \<Rightarrow> Inr (x, y, z) | _ \<Rightarrow> Inl ConversionError)
             channels)"

subsection \<open>The combined frame\<close>

record result_row = joined_row +
  medianpredprice_formatted :: string
  r :: int
  g :: int
  b :: int

definition result_of ::
  "joined_row \<Rightarrow> int \<Rightarrow> int \<times> int \<times> int \<Rightarrow> int \<Rightarrow> int \<Rightarrow> int \<Rightarrow> int \<Rightarrow> result_row"
where
  "result_of j price rgb tc bu nu nf =
     \<lparr> buildingname = buildingname j, buildingaddress = buildingaddress j, region = region j,
       medianpredprice = Num (word_of_int price), transactionscount = Num (word_of_int tc),
       built = Num (word_of_int bu), numberofunits = Num (word_of_int nu),
       numberoffloors = Num (word_of_int nf), colour = colour j,
       lat = lat j, lng = lng j, district = district j,
       medianpredprice_formatted = format_comma_d price,
       r = fst rgb, g = fst (snd rgb), b = snd (snd rgb) \<rparr>"

text \<open>
  Lines 67-75 on the joined rows. The columns are converted in the order of the source;
  the rows are put together from the converted columns at the end. \<^verbatim>\<open>astype(float)\<close> of
  lines 70-71 leaves a float or a null as it is.
\<close>

definition format_rows :: "joined_row list \<Rightarrow> error + result_row list" where
  "format_rows result_df =
     try_bind (map_column astype_int (map medianpredprice result_df)) (\<lambda>price.
     try_bind (frame_astype_int (str_split_expand (map colour result_df))) (\<lambda>channels.
     try_bind (assign_rgb channels) (\<lambda>rgb.
     try_bind (map_column astype_int (map transactionscount result_df)) (\<lambda>tc.
     try_bind (map_column astype_int (map built result_df)) (\<lambda>bu.
     try_bind (map_column astype_int (map numberofunits result_df)) (\<lambda>nu.
     try_bind (map_column astype_int (map numberoffloors result_df)) (\<lambda>nf.
       Inr (map (\<lambda>i. result_of (result_df ! i) (price ! i) (rgb ! i)
                        (tc ! i) (bu ! i) (nu ! i) (nf ! i))
                [0..<length result_df]))))))))"

text \<open>
  Lines 63-77. The join of line 63 raises \<^verbatim>\<open>KeyError\<close> when the price frame has no
  column \<^verbatim>\<open>buildingaddress\<close>, and \<^verbatim>\<open>ValueError\<close> (overlapping columns, no suffix) when
  it has a column \<^verbatim>\<open>lat\<close> or \<^verbatim>\<open>lng\<close>; the join of line 64 does the same for
  \<^verbatim>\<open>region\<close> and \<^verbatim>\<open>district\<close>; the selection of line 66 raises \<^verbatim>\<open>KeyError\<close> when
  one of the nine columns is missing.
\<close>

definition combine_and_format_data ::
  "price_frame \<Rightarrow> coordinates_frame \<Rightarrow> districts_frame \<Rightarrow> error + result_row list"
where
  "combine_and_format_data prices_df coordinates_df district_df =
     (if ''buildingaddress'' \<notin> set (columns prices_df) then Inl KeyError
      else if ''lat'' \<in> set (columns prices_df) \<or> ''lng'' \<in> set (columns prices_df)
        then Inl ValueError
      else if ''region'' \<notin> set (columns prices_df) then Inl KeyError
      else if ''district'' \<in> set (columns prices_df) then Inl ValueError
      else if \<not> list_all (\<lambda>c. c \<in> set (columns prices_df)) price_columns then Inl KeyError
      else
        (let result_df = join_inner (rows prices_df) coordinates_df;
             result_df = join_left result_df district_df
         in format_rows result_df))"

section \<open>Vocabulary of the properties\<close>

text \<open>
  A colour cell is malformed when it is no string, when splitting it on commas does not
  give three fields, or when one of the three fields is not converted by
  \<^verbatim>\<open>astype(int)\<close>.
\<close>

definition malformed_colour :: "cell \<Rightarrow> bool" where
  "malformed_colour c =
     (case c of
        Str s \<Rightarrow>
          (case str_split CHR '','' s of
             [x, y, z] \<Rightarrow>
               isl (astype_int (Str x)) \<or> isl (astype_int (Str y)) \<or> isl (astype_int (Str z))
           | _ \<Rightarrow> True)
      | _ \<Rightarrow> True)"

text \<open>
  A well-formed price row, the row that the pipeline makes of it, and the frame of the
  nine columns with given rows.
\<close>

definition example_row :: price_row where
  "example_row =
     \<lparr> buildingname = Str ''Tower'', buildingaddress = Str ''A'', region = Str ''regionA'',
       medianpredprice = Str ''6543210'', transactionscount = Num 5, built = Num 1999,
       numberofunits = Num 100, numberoffloors = Num 30, colour = Str ''10,200,30'' \<rparr>"

definition example_result :: "real option \<Rightarrow> real option \<Rightarrow> cell \<Rightarrow> result_row" where
  "example_result lt lg d =
     \<lparr> buildingname = Str ''Tower'', buildingaddress = Str ''A'', region = Str ''regionA'',
       medianpredprice = Num 6543210, transactionscount = Num 5, built = Num 1999,
       numberofunits = Num 100, numberoffloors = Num 30, colour = Str ''10,200,30'',
       lat = lt, lng = lg, district = d,
       medianpredprice_formatted = ''6,543,210'', r = 10, g = 200, b = 30 \<rparr>"

definition price_table :: "price_row list \<Rightarrow> price_frame" where
  "price_table rs = \<lparr> columns = price_columns, rows = rs \<rparr>"

section \<open>Properties of get_coordinates\<close>

lemma series_apply_inner:
  "series_apply (get_coordinates_inner gmaps) xs calls =
     (map (\<lambda>x. fst (get_coordinates_inner gmaps x [])) xs, calls @ xs)"
proof (induction xs arbitrary: calls)
  case Nil
  show ?case by simp
next
  case (Cons x xs)
  have "get_coordinates_inner gmaps x calls =
          (fst (get_coordinates_inner gmaps x []), calls @ [x])"
    by (simp add: get_coordinates_inner_def Let_def split: list.split)
  then show ?case by (simp add: Cons.IH)
qed

lemma inner_lat_not_null: "\<exists>y. fst (fst (get_coordinates_inner gmaps x calls)) = Some y"
  by (simp add: get_coordinates_inner_def Let_def split: list.split)

lemma get_coordinates_calls:
  "snd (get_coordinates gmaps file series) =
     filter (\<lambda>x. x \<notin> index_of (load_cache file)) series"
  by (simp add: get_coordinates_def Let_def series_apply_inner)

lemma get_coordinates_frame_fetch:
  assumes "filter (\<lambda>x. x \<notin> index_of (load_cache file)) series \<noteq> []"
  shows "fst (get_coordinates gmaps file series) =
           filter (\<lambda>row. lat_of row \<noteq> None) (load_cache file) @
           map (\<lambda>x. (x, fst (get_coordinates_inner gmaps x [])))
             (filter (\<lambda>x. x \<notin> index_of (load_cache file)) series)"
proof -
  let ?xs = "filter (\<lambda>x. x \<notin> index_of (load_cache file)) series"
  have z: "zip ?xs (map (\<lambda>x. fst (get_coordinates_inner gmaps x [])) ?xs) =
             map (\<lambda>x. (x, fst (get_coordinates_inner gmaps x []))) ?xs"
    by (simp add: zip_map2 zip_same_conv_map)
  have keep: "filter (\<lambda>row. \<exists>y. lat_of row = Some y)
                (map (\<lambda>x. (x, fst (get_coordinates_inner gmaps x []))) ?xs) =
              map (\<lambda>x. (x, fst (get_coordinates_inner gmaps x []))) ?xs"
    by (rule filter_True) (auto simp: lat_of_def inner_lat_not_null)
  show ?thesis
    using assms by (simp add: get_coordinates_def Let_def series_apply_inner z keep)
qed

lemma get_coordinates_frame_cached:
  assumes "filter (\<lambda>x. x \<notin> index_of (load_cache file)) series = []"
  shows "get_coordinates gmaps file series = (load_cache file, [])"
  using assms by (simp add: get_coordinates_def)

text \<open>
  C10. When every address of the input series is an index label of the loaded cache,
  \<^verbatim>\<open>get_coordinates\<close> returns the loaded frame as it was read, with no call of the
  geocoding client and without the \<^verbatim>\<open>notna\<close> filter of line 53, so a cached row with a
  null latitude is returned; as soon as one address \<open>x\<close> of the series is not cached, no
  row with a null latitude is returned.
\<close>

theorem get_coordinates_early_return_unfiltered:
  "(\<forall>a \<in> set series. a \<in> index_of df) \<longrightarrow>
     get_coordinates gmaps (Some df) series = (df, []) \<and>
     (x \<notin> index_of df \<longrightarrow>
        (\<forall>row \<in> set (fst (get_coordinates gmaps (Some df) (x # series))).
           lat_of row \<noteq> None))"
proof (intro impI conjI)
  assume all: "\<forall>a \<in> set series. a \<in> index_of df"
  then have "filter (\<lambda>x. x \<notin> index_of (load_cache (Some df))) series = []"
    by (simp add: filter_empty_conv load_cache_def)
  then show "get_coordinates gmaps (Some df) series = (df, [])"
    by (simp add: get_coordinates_frame_cached load_cache_def)
next
  assume nb: "x \<notin> index_of df"
  then have ne: "filter (\<lambda>x. x \<notin> index_of (load_cache (Some df))) (x # series) \<noteq> []"
    by (simp add: load_cache_def)
  show "\<forall>row \<in> set (fst (get_coordinates gmaps (Some df) (x # series))).
          lat_of row \<noteq> None"
    unfolding get_coordinates_frame_fetch [OF ne]
    by (auto simp: lat_of_def inner_lat_not_null)
qed

theorem get_coordinates_early_return_unfiltered_witness:
  "''A'' \<in> index_of [(''A'', None :: real option, None :: real option)] \<and>
   ''B'' \<notin> index_of [(''A'', None :: real option, None :: real option)] \<and>
   get_coordinates (\<lambda>_. []) (Some [(''A'', None, None)]) [''A''] = ([(''A'', None, None)], []) \<and>
   fst (get_coordinates (\<lambda>_. []) (Some [(''A'', None, None)]) [''B'', ''A'']) =
     [(''B'', Some 0, Some 0)]"
proof -
  have cached: "\<forall>a \<in> set [''A'']. a \<in> index_of [(''A'', None :: real option, None :: real option)]"
    by (simp add: index_of_def)
  have fresh: "''B'' \<notin> index_of [(''A'', None :: real option, None :: real option)]"
    by (simp add: index_of_def)
  from get_coordinates_early_return_unfiltered
    [of "[''A'']" "[(''A'', None, None)]" "\<lambda>_. []" "''B''"] cached fresh
  have "get_coordinates (\<lambda>_. []) (Some [(''A'', None, None)]) [''A''] = ([(''A'', None, None)], [])"
    and "\<forall>row \<in> set (fst (get_coordinates (\<lambda>_. []) (Some [(''A'', None, None)]) [''B'', ''A''])).
           lat_of row \<noteq> None"
    by blast+
  moreover have "fst (get_coordinates (\<lambda>_. []) (Some [(''A'', None, None)]) [''B'', ''A'']) =
     [(''B'', Some 0, Some 0)]"
    by (simp add: get_coordinates_def load_cache_def index_of_def get_coordinates_inner_def
          lat_of_def)
  ultimately show ?thesis
    using fresh by (simp add: index_of_def)
qed

text \<open>
  C3 (as stated, refuted). An address that occurs twice in the input series and is not in
  the cache is sent to the geocoding client twice.
\<close>

theorem get_coordinates_duplicate_counterexample:
  "snd (get_coordinates (\<lambda>_. []) None [''A'', ''A'']) = [''A'', ''A'']"
  by (simp add: get_coordinates_def load_cache_def index_of_def get_coordinates_inner_def)

text \<open>
  C3 (amended). The calls of the geocoding client are, in order, the elements of the input
  series that are no index label of the loaded cache: no call for a cached address, and
  one call for each occurrence of an address that is not cached.
\<close>

theorem get_coordinates_calls_per_occurrence:
  "snd (get_coordinates gmaps file series) =
     filter (\<lambda>x. x \<notin> index_of (load_cache file)) series \<and>
   count_list (snd (get_coordinates gmaps file series)) a =
     (if a \<in> index_of (load_cache file) then 0 else count_list series a)"
proof -
  have "count_list (filter P xs) a = (if P a then count_list xs a else 0)" for P and xs :: "'a list"
    by (induction xs) auto
  then show ?thesis
    by (simp add: get_coordinates_calls)
qed

text \<open>
  C2 (as stated, refuted). When every address of the series is cached, the returned frame
  is the loaded one: its index is equal to the previous index, not a strict superset.
\<close>

theorem get_coordinates_strict_superset_counterexample:
  "\<not> index_of [(''A'', Some (1::real), Some (2::real))]
       \<subset> index_of (fst (get_coordinates (\<lambda>_. []) (Some [(''A'', Some 1, Some 2)]) [''A'']))"
  by (simp add: get_coordinates_def load_cache_def index_of_def)

text \<open>
  C2 (amended). No address that is an index label of the loaded cache is sent to the
  geocoding client; every label of a cached row with a non-null latitude is a label of the
  returned frame; and when no cached row has a null latitude, the index of the returned
  frame contains the previous index, strictly so exactly when some address of the series
  was not cached.
\<close>

theorem get_coordinates_cache_monotone:
  "(\<forall>a \<in> index_of (load_cache file). a \<notin> set (snd (get_coordinates gmaps file series))) \<and>
   (\<forall>row \<in> set (load_cache file).
      lat_of row \<noteq> None \<longrightarrow> fst row \<in> index_of (fst (get_coordinates gmaps file series))) \<and>
   ((\<forall>row \<in> set (load_cache file). lat_of row \<noteq> None) \<longrightarrow>
      index_of (load_cache file) \<subseteq> index_of (fst (get_coordinates gmaps file series)) \<and>
      (index_of (load_cache file) \<subset> index_of (fst (get_coordinates gmaps file series))
         \<longleftrightarrow> (\<exists>x \<in> set series. x \<notin> index_of (load_cache file))))"
proof -
  let ?df = "load_cache file"
  let ?xs = "filter (\<lambda>x. x \<notin> index_of ?df) series"
  let ?out = "fst (get_coordinates gmaps file series)"
  have calls: "\<forall>a \<in> index_of ?df. a \<notin> set (snd (get_coordinates gmaps file series))"
    by (simp add: get_coordinates_calls)
  have idx: "index_of ?out =
               (if ?xs = [] then index_of ?df
                else index_of (filter (\<lambda>row. lat_of row \<noteq> None) ?df) \<union> set ?xs)"
  proof (cases "?xs = []")
    case True
    then show ?thesis by (simp add: get_coordinates_frame_cached)
  next
    case False
    have "fst ` (\<lambda>x. (x, fst (get_coordinates_inner gmaps x []))) ` set ?xs = set ?xs"
      by (simp add: image_image)
    with False show ?thesis
      unfolding get_coordinates_frame_fetch [OF False] index_of_def
      by (simp only: set_append image_Un set_map if_False)
  qed
  have kept: "\<forall>row \<in> set ?df. lat_of row \<noteq> None \<longrightarrow> fst row \<in> index_of ?out"
    unfolding idx by (auto simp: index_of_def)
  have mono: "index_of ?df \<subseteq> index_of ?out \<and>
              (index_of ?df \<subset> index_of ?out \<longleftrightarrow> (\<exists>x \<in> set series. x \<notin> index_of ?df))"
    if nn: "\<forall>row \<in> set ?df. lat_of row \<noteq> None"
  proof -
    from nn have same: "filter (\<lambda>row. lat_of row \<noteq> None) ?df = ?df"
      by (intro filter_True) simp
    have ex: "(\<exists>x \<in> set series. x \<notin> index_of ?df) \<longleftrightarrow> ?xs \<noteq> []"
      by (auto simp: filter_empty_conv)
    show ?thesis
    proof (cases "?xs = []")
      case True
      then show ?thesis using ex by (simp add: idx)
    next
      case False
      then obtain x where x: "x \<in> set ?xs" by (cases ?xs) auto
      then have "x \<notin> index_of ?df" by simp
      with x False show ?thesis using ex unfolding idx same by auto
    qed
  qed
  from calls kept mono show ?thesis by blast
qed

theorem get_coordinates_cache_monotone_witness:
  "''A'' \<in> index_of (load_cache (Some [(''A'', Some 1, Some 2)])) \<and>
   ''A'' \<notin> set (snd (get_coordinates (\<lambda>_. [(3, 4)]) (Some [(''A'', Some 1, Some 2)]) [''A'', ''B''])) \<and>
   lat_of (''A'', Some 1, Some 2) \<noteq> None \<and>
   ''A'' \<in> index_of (fst (get_coordinates (\<lambda>_. [(3, 4)]) (Some [(''A'', Some 1, Some 2)]) [''A'', ''B''])) \<and>
   index_of (load_cache (Some [(''A'', Some 1, Some 2)]))
     \<subset> index_of (fst (get_coordinates (\<lambda>_. [(3, 4)]) (Some [(''A'', Some 1, Some 2)]) [''A'', ''B'']))"
  using get_coordinates_cache_monotone
    [of "Some [(''A'', Some 1, Some 2)]" "\<lambda>_. [(3, 4)]" "[''A'', ''B'']"]
  by (simp add: load_cache_def index_of_def lat_of_def)

section \<open>Properties of combine_and_format_data\<close>

subsection \<open>Columns and joins\<close>

lemma try_bind_Inr_iff:
  "try_bind m f = Inr y \<longleftrightarrow> (\<exists>x. m = Inr x \<and> f x = Inr y)"
  by (cases m) (simp_all add: try_bind_def)

lemma map_column_Inr_D:
  "map_column f xs = Inr ys \<Longrightarrow> list_all2 (\<lambda>x y. f x = Inr y) xs ys"
proof (induction xs arbitrary: ys)
  case Nil
  then show ?case by simp
next
  case (Cons x xs)
  then show ?case
    by (auto split: sum.splits)
qed

lemma map_column_Inr_I:
  "list_all2 (\<lambda>x y. f x = Inr y) xs ys \<Longrightarrow> map_column f xs = Inr ys"
  by (induction xs ys rule: list_all2_induct) simp_all

lemma in_join_inner:
  "(p, c) \<in> set (join_inner prices coordinates_df) \<longleftrightarrow>
     p \<in> set prices \<and> c \<in> set coordinates_df \<and> buildingaddress p = fst c"
  by (auto simp: join_inner_def)

lemma set_join_left:
  "set (join_left result_df district_df) =
     (\<Union>x \<in> set result_df.
        set (if filter (\<lambda>d. fst d = region (fst x)) district_df = []
             then [with_coordinates (fst x) (snd x) Null]
             else map (\<lambda>d. with_coordinates (fst x) (snd x) (snd d))
                    (filter (\<lambda>d. fst d = region (fst x)) district_df)))"
  by (simp only: join_left_def case_prod_beta Let_def set_concat set_map image_image)

lemma no_match_iff:
  "filter (\<lambda>d. fst d = x) district_df = [] \<longleftrightarrow> x \<notin> index_of district_df"
  by (auto simp: filter_empty_conv index_of_def)

lemma in_join_left_D:
  assumes "j \<in> set (join_left result_df district_df)"
  shows "\<exists>p c d. (p, c) \<in> set result_df \<and> j = with_coordinates p c d \<and>
           ((region p \<notin> index_of district_df \<and> d = Null) \<or> (region p, d) \<in> set district_df)"
proof -
  from assms obtain x where x: "x \<in> set result_df"
    and j: "j \<in> set (if filter (\<lambda>d. fst d = region (fst x)) district_df = []
             then [with_coordinates (fst x) (snd x) Null]
             else map (\<lambda>d. with_coordinates (fst x) (snd x) (snd d))
                    (filter (\<lambda>d. fst d = region (fst x)) district_df))"
    unfolding set_join_left by blast
  have pc: "(fst x, snd x) \<in> set result_df" using x by simp
  show ?thesis
  proof (cases "filter (\<lambda>d. fst d = region (fst x)) district_df = []")
    case True
    then have "region (fst x) \<notin> index_of district_df" by (simp add: no_match_iff)
    moreover from True j have "j = with_coordinates (fst x) (snd x) Null" by simp
    ultimately show ?thesis using pc by blast
  next
    case False
    with j obtain d where d: "d \<in> set district_df" "fst d = region (fst x)"
      and jd: "j = with_coordinates (fst x) (snd x) (snd d)"
      by auto
    from d have "(region (fst x), snd d) \<in> set district_df" by (metis prod.collapse)
    with pc jd show ?thesis by blast
  qed
qed

lemma in_join_left_unmatched:
  assumes "(p, c) \<in> set result_df" and "region p \<notin> index_of district_df"
  shows "with_coordinates p c Null \<in> set (join_left result_df district_df)"
proof -
  from assms(2) have "filter (\<lambda>d. fst d = region p) district_df = []"
    by (simp add: no_match_iff)
  then show ?thesis
    unfolding set_join_left using assms(1) by (intro UN_I [of "(p, c)"]) simp_all
qed

lemma in_join_left_some:
  assumes "(p, c) \<in> set result_df"
  shows "\<exists>d. with_coordinates p c d \<in> set (join_left result_df district_df)"
proof (cases "filter (\<lambda>d. fst d = region p) district_df = []")
  case True
  then have "with_coordinates p c Null \<in> set (join_left result_df district_df)"
    unfolding set_join_left using assms by (intro UN_I [of "(p, c)"]) simp_all
  then show ?thesis ..
next
  case False
  then obtain d where d: "d \<in> set (filter (\<lambda>d. fst d = region p) district_df)"
    by (cases "filter (\<lambda>d. fst d = region p) district_df") auto
  have "with_coordinates p c (snd d) \<in> set (join_left result_df district_df)"
    unfolding set_join_left using assms False d by (intro UN_I [of "(p, c)"]) auto
  then show ?thesis ..
qed


lemma padded_all_Some:
  assumes "map Some ps @ replicate k None = map Some qs"
  shows "ps = qs"
proof -
  have "k = 0"
  proof (rule ccontr)
    assume "k \<noteq> 0"
    then have "None \<in> set (map Some ps @ replicate k None)" by simp
    with assms have "None \<in> set (map Some qs)" by simp
    then show False by auto
  qed
  with assms have "map Some ps = map Some qs" by simp
  then show ?thesis by (simp add: inj_map_eq_map)
qed

lemma field_int_Inr:
  "field_int f = Inr n \<Longrightarrow> \<exists>x. f = Some x \<and> astype_int (Str x) = Inr n"
  by (cases f) (simp_all add: field_int_def)

lemma row_ints:
  assumes "map_column field_int row = Inr [n1, n2, n3]"
  shows "\<exists>x y z. row = [Some x, Some y, Some z] \<and> astype_int (Str x) = Inr n1 \<and>
           astype_int (Str y) = Inr n2 \<and> astype_int (Str z) = Inr n3"
proof -
  from assms have "list_all2 (\<lambda>f n. field_int f = Inr n) row [n1, n2, n3]"
    by (rule map_column_Inr_D)
  then obtain f1 f2 f3 where row: "row = [f1, f2, f3]"
    and f: "field_int f1 = Inr n1" "field_int f2 = Inr n2" "field_int f3 = Inr n3"
    by (auto simp: list_all2_Cons2)
  from f show ?thesis
    unfolding row by (auto dest!: field_int_Inr)
qed

lemma triple_of_row:
  "(case row of [x, y, z] \<Rightarrow> Inr (x, y, z) | _ \<Rightarrow> Inl ConversionError) = Inr t \<Longrightarrow>
     row = [fst t, fst (snd t), snd (snd t)]"
  by (auto split: list.splits)

lemma assign_rgb_Inr:
  assumes "assign_rgb channels = Inr rgb"
  shows "list_all2 (\<lambda>row t. row = [fst t, fst (snd t), snd (snd t)]) channels rgb"
proof -
  from assms have "map_column (\<lambda>row. case row of [x, y, z] \<Rightarrow> Inr (x, y, z) | _ \<Rightarrow> Inl ConversionError)
                     channels = Inr rgb"
    by (simp add: assign_rgb_def split: if_splits)
  then have "list_all2 (\<lambda>row t. (case row of [x, y, z] \<Rightarrow> Inr (x, y, z) | _ \<Rightarrow> Inl ConversionError) = Inr t)
               channels rgb"
    by (rule map_column_Inr_D)
  then show ?thesis
    by (rule list_all2_mono) (rule triple_of_row)
qed

lemma str_split_expand_rows:
  "\<exists>w. str_split_expand col =
           map (\<lambda>c. case c of
                       Str s \<Rightarrow> map Some (str_split CHR '','' s) @
                                  replicate (w - length (str_split CHR '','' s)) None
                     | _ \<Rightarrow> replicate w None) col"
  by (intro exI [of _ "expand_width (map (\<lambda>c. case c of Str s \<Rightarrow> Some (str_split CHR '','' s) | _ \<Rightarrow> None) col)"])
     (auto simp: str_split_expand_def Let_def split: cell.splits)

lemma colour_channels:
  assumes c: "frame_astype_int (str_split_expand col) = Inr channels"
    and a: "assign_rgb channels = Inr rgb"
  shows "length rgb = length col"
    and "i < length col \<Longrightarrow>
           \<exists>s x y z. col ! i = Str s \<and> str_split CHR '','' s = [x, y, z] \<and>
             astype_int (Str x) = Inr (fst (rgb ! i)) \<and>
             astype_int (Str y) = Inr (fst (snd (rgb ! i))) \<and>
             astype_int (Str z) = Inr (snd (snd (rgb ! i)))"
proof -
  define expanded where "expanded = str_split_expand col"
  obtain w where ex: "expanded =
           map (\<lambda>c. case c of
                       Str s \<Rightarrow> map Some (str_split CHR '','' s) @
                                  replicate (w - length (str_split CHR '','' s)) None
                     | _ \<Rightarrow> replicate w None) col"
    unfolding expanded_def using str_split_expand_rows by blast
  from c have ch: "list_all2 (\<lambda>row ns. map_column field_int row = Inr ns) expanded channels"
    unfolding frame_astype_int_def expanded_def by (rule map_column_Inr_D)
  from a have rg: "list_all2 (\<lambda>row t. row = [fst t, fst (snd t), snd (snd t)]) channels rgb"
    by (rule assign_rgb_Inr)
  have len: "length expanded = length col" by (simp add: ex)
  from ch have len2: "length channels = length expanded" by (simp add: list_all2_lengthD)
  from rg have len3: "length rgb = length channels" by (simp add: list_all2_lengthD)
  show "length rgb = length col" using len len2 len3 by simp
  assume i: "i < length col"
  let ?t = "rgb ! i"
  from rg i len len2 have "channels ! i = [fst ?t, fst (snd ?t), snd (snd ?t)]"
    by (simp add: list_all2_conv_all_nth)
  moreover from ch i len have "map_column field_int (expanded ! i) = Inr (channels ! i)"
    by (simp add: list_all2_conv_all_nth)
  ultimately obtain x y z where row: "expanded ! i = [Some x, Some y, Some z]"
    and ints: "astype_int (Str x) = Inr (fst ?t)" "astype_int (Str y) = Inr (fst (snd ?t))"
      "astype_int (Str z) = Inr (snd (snd ?t))"
    using row_ints by metis
  have row': "expanded ! i = (case col ! i of
                       Str s \<Rightarrow> map Some (str_split CHR '','' s) @
                                  replicate (w - length (str_split CHR '','' s)) None
                     | _ \<Rightarrow> replicate w None)"
    using i by (simp add: ex)
  have nn: "replicate w None \<noteq> [Some x, Some y, Some z]"
    by (cases w) auto
  show "\<exists>s x y z. col ! i = Str s \<and> str_split CHR '','' s = [x, y, z] \<and>
             astype_int (Str x) = Inr (fst (rgb ! i)) \<and>
             astype_int (Str y) = Inr (fst (snd (rgb ! i))) \<and>
             astype_int (Str z) = Inr (snd (snd (rgb ! i)))"
  proof (cases "col ! i")
    case Null
    with row row' nn show ?thesis by simp
  next
    case (Num n)
    with row row' nn show ?thesis by simp
  next
    case (Str s)
    with row row' have "map Some (str_split CHR '','' s) @
                          replicate (w - length (str_split CHR '','' s)) None = map Some [x, y, z]"
      by simp
    then have "str_split CHR '','' s = [x, y, z]" by (rule padded_all_Some)
    with Str ints show ?thesis by blast
  qed
qed

subsection \<open>Rows of the returned frame\<close>

lemma format_rows_Inr_D:
  assumes "format_rows result_df = Inr result"
  shows "\<exists>price channels rgb tc bu nu nf.
    map_column astype_int (map medianpredprice result_df) = Inr price \<and>
    frame_astype_int (str_split_expand (map colour result_df)) = Inr channels \<and>
    assign_rgb channels = Inr rgb \<and>
    map_column astype_int (map transactionscount result_df) = Inr tc \<and>
    map_column astype_int (map built result_df) = Inr bu \<and>
    map_column astype_int (map numberofunits result_df) = Inr nu \<and>
    map_column astype_int (map numberoffloors result_df) = Inr nf \<and>
    result =
       map (\<lambda>i. result_of (result_df ! i) (price ! i) (rgb ! i) (tc ! i) (bu ! i) (nu ! i) (nf ! i))
           [0..<length result_df]"
  using assms
  unfolding format_rows_def try_bind_Inr_iff
  by (elim exE conjE, intro exI conjI) (assumption+, simp)

lemma combine_Inr_format:
  assumes "combine_and_format_data prices_df coordinates_df district_df = Inr result"
  shows "format_rows (join_left (join_inner (rows prices_df) coordinates_df) district_df) = Inr result"
  using assms by (simp add: combine_and_format_data_def Let_def split: if_splits)

lemma column_ints:
  assumes "map_column astype_int (map f js) = Inr ns"
  shows "length ns = length js" and "i < length js \<Longrightarrow> astype_int (f (js ! i)) = Inr (ns ! i)"
proof -
  from assms have l: "list_all2 (\<lambda>x y. astype_int x = Inr y) (map f js) ns"
    by (rule map_column_Inr_D)
  then show "length ns = length js" by (simp add: list_all2_lengthD [symmetric])
  assume "i < length js"
  with l show "astype_int (f (js ! i)) = Inr (ns ! i)"
    by (simp add: list_all2_conv_all_nth)
qed

lemmas eval_defs =
  combine_and_format_data_def format_rows_def price_table_def price_columns_def
  join_inner_def join_left_def with_coordinates_def try_bind_def
  str_split_expand_def expand_width_def frame_astype_int_def field_int_def
  assign_rgb_def frame_width_def result_of_def py_int_def strip_def is_space_def
  parse_unsigned_def digit_val_def to_int64_def format_comma_d_def digit_char_def
  three_digits_def lat_of_def lng_of_def example_row_def example_result_def index_of_def

lemma combine_example:
  "combine_and_format_data (price_table [example_row]) [(Str ''A'', lt, lg)] [] =
     Inr [example_result lt lg Null]"
  by (simp add: eval_defs)

lemma combine_example_district:
  "combine_and_format_data (price_table [example_row]) [(Str ''A'', lt, lg)]
     [(Str ''regionA'', Str ''NT'')] =
     Inr [example_result lt lg (Str ''NT'')]"
  by (simp add: eval_defs)

lemma join_inner_no_coordinates: "join_inner prices [] = []"
  by (induction prices) (simp_all add: join_inner_def)

lemma with_coordinates_simps:
  "buildingname (with_coordinates p c d) = buildingname p"
  "buildingaddress (with_coordinates p c d) = buildingaddress p"
  "region (with_coordinates p c d) = region p"
  "medianpredprice (with_coordinates p c d) = medianpredprice p"
  "transactionscount (with_coordinates p c d) = transactionscount p"
  "built (with_coordinates p c d) = built p"
  "numberofunits (with_coordinates p c d) = numberofunits p"
  "numberoffloors (with_coordinates p c d) = numberoffloors p"
  "colour (with_coordinates p c d) = colour p"
  "lat (with_coordinates p c d) = lat_of c"
  "lng (with_coordinates p c d) = lng_of c"
  "district (with_coordinates p c d) = d"
  by (simp_all add: with_coordinates_def)

lemma result_of_simps:
  "buildingname (result_of j price rgb tc bu nu nf) = buildingname j"
  "buildingaddress (result_of j price rgb tc bu nu nf) = buildingaddress j"
  "region (result_of j price rgb tc bu nu nf) = region j"
  "colour (result_of j price rgb tc bu nu nf) = colour j"
  "lat (result_of j price rgb tc bu nu nf) = lat j"
  "lng (result_of j price rgb tc bu nu nf) = lng j"
  "district (result_of j price rgb tc bu nu nf) = district j"
  "r (result_of j price rgb tc bu nu nf) = fst rgb"
  "g (result_of j price rgb tc bu nu nf) = fst (snd rgb)"
  "b (result_of j price rgb tc bu nu nf) = snd (snd rgb)"
  by (simp_all add: result_of_def)

text \<open>
  When the function returns a frame, its rows are the rows of the joined frame, one for
  one and in order, and every converted cell of a joined row was convertible.
\<close>

lemma combine_rows:
  assumes "combine_and_format_data prices_df coordinates_df district_df = Inr result"
  shows "length result = length (join_left (join_inner (rows prices_df) coordinates_df) district_df)"
    and "i < length (join_left (join_inner (rows prices_df) coordinates_df) district_df) \<Longrightarrow>
      \<exists>price rgb tc bu nu nf s x y z.
        result ! i =
          result_of (join_left (join_inner (rows prices_df) coordinates_df) district_df ! i)
            price rgb tc bu nu nf \<and>
        astype_int (medianpredprice (join_left (join_inner (rows prices_df) coordinates_df) district_df ! i))
          = Inr price \<and>
        astype_int (transactionscount (join_left (join_inner (rows prices_df) coordinates_df) district_df ! i))
          = Inr tc \<and>
        astype_int (built (join_left (join_inner (rows prices_df) coordinates_df) district_df ! i))
          = Inr bu \<and>
        astype_int (numberofunits (join_left (join_inner (rows prices_df) coordinates_df) district_df ! i))
          = Inr nu \<and>
        astype_int (numberoffloors (join_left (join_inner (rows prices_df) coordinates_df) district_df ! i))
          = Inr nf \<and>
        colour (join_left (join_inner (rows prices_df) coordinates_df) district_df ! i) = Str s \<and>
        str_split CHR '','' s = [x, y, z] \<and>
        astype_int (Str x) = Inr (fst rgb) \<and>
        astype_int (Str y) = Inr (fst (snd rgb)) \<and>
        astype_int (Str z) = Inr (snd (snd rgb))"
proof -
  let ?J = "join_left (join_inner (rows prices_df) coordinates_df) district_df"
  from format_rows_Inr_D [OF combine_Inr_format [OF assms]]
  obtain price channels rgb tc bu nu nf where
    c1: "map_column astype_int (map medianpredprice ?J) = Inr price" and
    c3: "frame_astype_int (str_split_expand (map colour ?J)) = Inr channels" and
    c4: "assign_rgb channels = Inr rgb" and
    c5: "map_column astype_int (map transactionscount ?J) = Inr tc" and
    c6: "map_column astype_int (map built ?J) = Inr bu" and
    c7: "map_column astype_int (map numberofunits ?J) = Inr nu" and
    c8: "map_column astype_int (map numberoffloors ?J) = Inr nf" and
    res: "result = map (\<lambda>i. result_of (?J ! i) (price ! i) (rgb ! i) (tc ! i) (bu ! i)
                              (nu ! i) (nf ! i)) [0..<length ?J]"
    by blast
  show "length result = length ?J" by (simp add: res)
  assume i: "i < length ?J"
  then have ri: "result ! i =
      result_of (?J ! i) (price ! i) (rgb ! i) (tc ! i) (bu ! i) (nu ! i) (nf ! i)"
    by (simp add: res)
  from i have ic: "i < length (map colour ?J)" by simp
  from colour_channels(2) [OF c3 c4 ic] i obtain s x y z where
    col: "colour (?J ! i) = Str s" "str_split CHR '','' s = [x, y, z]"
      "astype_int (Str x) = Inr (fst (rgb ! i))"
      "astype_int (Str y) = Inr (fst (snd (rgb ! i)))"
      "astype_int (Str z) = Inr (snd (snd (rgb ! i)))"
    by auto
  note ints = column_ints(2) [OF c1 i] column_ints(2) [OF c5 i] column_ints(2) [OF c6 i]
    column_ints(2) [OF c7 i] column_ints(2) [OF c8 i]
  from ri ints col show "\<exists>price rgb tc bu nu nf s x y z.
        result ! i = result_of (?J ! i) price rgb tc bu nu nf \<and>
        astype_int (medianpredprice (?J ! i)) = Inr price \<and>
        astype_int (transactionscount (?J ! i)) = Inr tc \<and>
        astype_int (built (?J ! i)) = Inr bu \<and>
        astype_int (numberofunits (?J ! i)) = Inr nu \<and>
        astype_int (numberoffloors (?J ! i)) = Inr nf \<and>
        colour (?J ! i) = Str s \<and>
        str_split CHR '','' s = [x, y, z] \<and>
        astype_int (Str x) = Inr (fst rgb) \<and>
        astype_int (Str y) = Inr (fst (snd rgb)) \<and>
        astype_int (Str z) = Inr (snd (snd rgb))"
    by blast
qed

lemma astype_int_Str_Inr: "astype_int (Str x) = Inr n \<Longrightarrow> py_int x = Some n"
  by (auto simp: to_int64_def split: option.splits if_splits)

section \<open>Properties of get_prices and get_districts\<close>

text \<open>
  C7. When the persisted price frame exists, \<^verbatim>\<open>get_prices\<close> returns it as it is, whatever
  the web would answer, and requests no URL: the list of fetched URLs is empty.
\<close>

theorem get_prices_cached_no_fetch:
  "get_prices session (Some prices_df) = (Inr prices_df, [])"
  by (simp add: get_prices_def)



section \<open>The claims on combine_and_format_data\<close>

text \<open>
  C4 (as stated, refuted). The empty price frame that the program itself makes,
  \<^verbatim>\<open>pd.DataFrame()\<close>, has no column \<^verbatim>\<open>buildingaddress\<close>: with it and an empty
  coordinate frame the join of line 63 raises \<^verbatim>\<open>KeyError\<close>.
\<close>

theorem combine_empty_counterexample:
  "combine_and_format_data \<lparr> columns = [], rows = [] \<rparr> [] [] = Inl KeyError"
  by (simp add: combine_and_format_data_def)

lemma format_rows_empty: "format_rows [] = Inl ConversionError"
  by (simp add: format_rows_def try_bind_def str_split_expand_def expand_width_def
        frame_astype_int_def assign_rgb_def frame_width_def)

lemma combine_no_joined_row:
  assumes "join_inner (rows prices_df) coordinates_df = []"
  shows "isl (combine_and_format_data prices_df coordinates_df district_df)"
  using assms
  by (simp add: combine_and_format_data_def join_left_def format_rows_empty)

text \<open>
  C4 (amended). \<^verbatim>\<open>combine_and_format_data\<close> raises, and returns no frame, whenever the
  price frame or the coordinate frame has no row, whatever its columns and whatever the
  other frames hold: when the nine columns are there the joined frame has no row, the
  split of its colour column has no column, and line 69 cannot assign it to the three
  columns \<^verbatim>\<open>r\<close>, \<^verbatim>\<open>g\<close>, \<^verbatim>\<open>b\<close>.
\<close>

theorem combine_empty_raises:
  "isl (combine_and_format_data (prices_df\<lparr>rows := []\<rparr>) coordinates_df district_df) \<and>
   isl (combine_and_format_data prices_df [] district_df)"
proof
  show "isl (combine_and_format_data (prices_df\<lparr>rows := []\<rparr>) coordinates_df district_df)"
    by (rule combine_no_joined_row) (simp add: join_inner_def)
  show "isl (combine_and_format_data prices_df [] district_df)"
    by (rule combine_no_joined_row) (rule join_inner_no_coordinates)
qed

text \<open>
  C1 (the code at the failing input). The geocoding client finds no match for the address
  \<^verbatim>\<open>A\<close> and the cache file does not exist: \<^verbatim>\<open>get_coordinates\<close> returns the row of
  \<^verbatim>\<open>A\<close> with the pair \<open>(0, 0)\<close>, which is not null and passes the filter of line 53;
  the combined frame has a row for \<^verbatim>\<open>A\<close> at latitude 0 and longitude 0; and with the
  returned frame as the cache of the next run, \<^verbatim>\<open>A\<close> is not queried again.
\<close>

theorem sentinel_reaches_combined_frame:
  "get_coordinates (\<lambda>_. []) None [Str ''A''] = ([(Str ''A'', Some 0, Some 0)], [Str ''A'']) \<and>
   combine_and_format_data (price_table [example_row])
     (fst (get_coordinates (\<lambda>_. []) None [Str ''A''])) [] =
     Inr [example_result (Some 0) (Some 0) Null] \<and>
   get_coordinates (\<lambda>_. []) (Some (fst (get_coordinates (\<lambda>_. []) None [Str ''A'']))) [Str ''A''] =
     ([(Str ''A'', Some 0, Some 0)], [])"
proof -
  have g: "get_coordinates (\<lambda>_. []) None [Str ''A''] =
             ([(Str ''A'', Some 0, Some 0)], [Str ''A''])"
    by (simp add: get_coordinates_def load_cache_def index_of_def get_coordinates_inner_def
          lat_of_def)
  have "get_coordinates (\<lambda>_. []) (Some [(Str ''A'', Some 0, Some 0)]) [Str ''A''] =
          ([(Str ''A'', Some 0, Some 0)], [])"
    by (simp add: get_coordinates_def load_cache_def index_of_def)
  with g show ?thesis
    by (simp add: combine_example)
qed

lemma result_row_origin:
  assumes ok: "combine_and_format_data prices_df coordinates_df district_df = Inr result"
    and row: "row \<in> set result"
  shows "\<exists>p c d price rgb tc bu nu nf s x y z.
           p \<in> set (rows prices_df) \<and> c \<in> set coordinates_df \<and> buildingaddress p = fst c \<and>
           ((region p \<notin> index_of district_df \<and> d = Null) \<or> (region p, d) \<in> set district_df) \<and>
           row = result_of (with_coordinates p c d) price rgb tc bu nu nf \<and>
           colour p = Str s \<and> str_split CHR '','' s = [x, y, z] \<and>
           astype_int (Str x) = Inr (fst rgb) \<and>
           astype_int (Str y) = Inr (fst (snd rgb)) \<and>
           astype_int (Str z) = Inr (snd (snd rgb))"
proof -
  let ?J = "join_left (join_inner (rows prices_df) coordinates_df) district_df"
  from row obtain i where i: "i < length result" and ri: "result ! i = row"
    by (auto simp: in_set_conv_nth)
  from i have iJ: "i < length ?J" by (simp add: combine_rows(1) [OF ok])
  from combine_rows(2) [OF ok iJ] ri obtain price rgb tc bu nu nf s x y z where
    r1: "row = result_of (?J ! i) price rgb tc bu nu nf" and
    r2: "colour (?J ! i) = Str s" "str_split CHR '','' s = [x, y, z]"
      "astype_int (Str x) = Inr (fst rgb)" "astype_int (Str y) = Inr (fst (snd rgb))"
      "astype_int (Str z) = Inr (snd (snd rgb))"
    by auto
  from iJ have "?J ! i \<in> set ?J" by simp
  from in_join_left_D [OF this] obtain p c d where
    pc: "(p, c) \<in> set (join_inner (rows prices_df) coordinates_df)" and
    j: "?J ! i = with_coordinates p c d" and
    d: "(region p \<notin> index_of district_df \<and> d = Null) \<or> (region p, d) \<in> set district_df"
    by blast
  from pc have p: "p \<in> set (rows prices_df)" "c \<in> set coordinates_df" "buildingaddress p = fst c"
    by (simp_all add: in_join_inner)
  from r2(1) have "colour p = Str s" by (simp add: j with_coordinates_simps)
  with p d r1 r2 j show ?thesis by metis
qed

lemma joined_row_result:
  assumes ok: "combine_and_format_data prices_df coordinates_df district_df = Inr result"
    and j: "j \<in> set (join_left (join_inner (rows prices_df) coordinates_df) district_df)"
  shows "\<exists>price rgb tc bu nu nf.
           result_of j price rgb tc bu nu nf \<in> set result \<and>
           astype_int (medianpredprice j) = Inr price \<and>
           astype_int (transactionscount j) = Inr tc \<and>
           astype_int (built j) = Inr bu \<and>
           astype_int (numberofunits j) = Inr nu \<and>
           astype_int (numberoffloors j) = Inr nf \<and>
           \<not> malformed_colour (colour j)"
proof -
  let ?J = "join_left (join_inner (rows prices_df) coordinates_df) district_df"
  from j obtain i where i: "i < length ?J" and ji: "?J ! i = j"
    by (auto simp: in_set_conv_nth)
  from combine_rows(2) [OF ok i] obtain price rgb tc bu nu nf s x y z where
    r1: "result ! i = result_of j price rgb tc bu nu nf" and
    r2: "astype_int (medianpredprice j) = Inr price" "astype_int (transactionscount j) = Inr tc"
      "astype_int (built j) = Inr bu" "astype_int (numberofunits j) = Inr nu"
      "astype_int (numberoffloors j) = Inr nf" and
    r3: "colour j = Str s" "str_split CHR '','' s = [x, y, z]"
      "astype_int (Str x) = Inr (fst rgb)" "astype_int (Str y) = Inr (fst (snd rgb))"
      "astype_int (Str z) = Inr (snd (snd rgb))"
    unfolding ji by blast
  from i have "result ! i \<in> set result" by (simp add: combine_rows(1) [OF ok])
  with r1 have m: "result_of j price rgb tc bu nu nf \<in> set result" by simp
  from r3 have "\<not> malformed_colour (colour j)" by (simp add: malformed_colour_def)
  with m r2 show ?thesis by blast
qed

text \<open>
  C5 (as stated, refuted). The inner join compares index labels only: a coordinate row
  with a null latitude and a null longitude, here a cached row that \<^verbatim>\<open>get_coordinates\<close>
  returns by its early return, is joined as any other, and the returned row has a null
  \<^verbatim>\<open>lat\<close> and a null \<^verbatim>\<open>lng\<close>.
\<close>

theorem combine_null_coordinate_counterexample:
  "get_coordinates (\<lambda>_. []) (Some [(Str ''A'', None, None)]) [Str ''A''] =
     ([(Str ''A'', None, None)], []) \<and>
   combine_and_format_data (price_table [example_row])
     (fst (get_coordinates (\<lambda>_. []) (Some [(Str ''A'', None, None)]) [Str ''A''])) [] =
     Inr [example_result None None Null] \<and>
   lat (example_result None None Null) = None \<and> lng (example_result None None Null) = None"
proof -
  have "get_coordinates (\<lambda>_. []) (Some [(Str ''A'', None, None)]) [Str ''A''] =
          ([(Str ''A'', None, None)], [])"
    by (simp add: get_coordinates_def load_cache_def index_of_def)
  then show ?thesis
    by (simp add: combine_example) (simp add: example_result_def)
qed

text \<open>
  C5 (amended). When \<^verbatim>\<open>combine_and_format_data\<close> returns a frame, the address of every
  row is the index label of a row of the coordinate frame, and the row carries that
  coordinate row's \<^verbatim>\<open>lat\<close> and \<^verbatim>\<open>lng\<close>; so when the coordinate frame holds no null
  label, no null \<^verbatim>\<open>lat\<close> and no null \<^verbatim>\<open>lng\<close>, every returned row has a non-null
  \<^verbatim>\<open>lat\<close>, \<^verbatim>\<open>lng\<close> and \<^verbatim>\<open>buildingaddress\<close>. A price row with a coordinate whose
  region is no index label of the district frame is kept, with a null district.
\<close>

theorem combine_join_completeness:
  assumes "combine_and_format_data prices_df coordinates_df district_df = Inr result"
  shows "(\<forall>row \<in> set result. \<exists>c \<in> set coordinates_df.
            buildingaddress row = fst c \<and> lat row = lat_of c \<and> lng row = lng_of c) \<and>
         ((\<forall>c \<in> set coordinates_df. fst c \<noteq> Null \<and> lat_of c \<noteq> None \<and> lng_of c \<noteq> None) \<longrightarrow>
            (\<forall>row \<in> set result. lat row \<noteq> None \<and> lng row \<noteq> None \<and> buildingaddress row \<noteq> Null)) \<and>
         (\<forall>p \<in> set (rows prices_df). \<forall>c \<in> set coordinates_df.
            buildingaddress p = fst c \<and> region p \<notin> index_of district_df \<longrightarrow>
            (\<exists>row \<in> set result.
               buildingname row = buildingname p \<and> buildingaddress row = buildingaddress p \<and>
               region row = region p \<and> lat row = lat_of c \<and> lng row = lng_of c \<and>
               district row = Null))"
proof -
  have origin: "\<exists>c \<in> set coordinates_df.
      buildingaddress row = fst c \<and> lat row = lat_of c \<and> lng row = lng_of c"
    if "row \<in> set result" for row
  proof -
    from result_row_origin [OF assms that] obtain p c d price rgb tc bu nu nf where
      "c \<in> set coordinates_df" "buildingaddress p = fst c"
      "row = result_of (with_coordinates p c d) price rgb tc bu nu nf"
      by blast
    then show ?thesis
      by (auto simp: result_of_simps with_coordinates_simps)
  qed
  have kept: "\<exists>row \<in> set result.
               buildingname row = buildingname p \<and> buildingaddress row = buildingaddress p \<and>
               region row = region p \<and> lat row = lat_of c \<and> lng row = lng_of c \<and>
               district row = Null"
    if "p \<in> set (rows prices_df)" "c \<in> set coordinates_df" "buildingaddress p = fst c"
      "region p \<notin> index_of district_df" for p c
  proof -
    from that have "(p, c) \<in> set (join_inner (rows prices_df) coordinates_df)"
      by (simp add: in_join_inner)
    then have "with_coordinates p c Null \<in>
                 set (join_left (join_inner (rows prices_df) coordinates_df) district_df)"
      using that(4) by (rule in_join_left_unmatched)
    from joined_row_result [OF assms this] obtain price rgb tc bu nu nf where
      "result_of (with_coordinates p c Null) price rgb tc bu nu nf \<in> set result"
      by blast
    then show ?thesis
      by (rule rev_bexI) (simp add: result_of_simps with_coordinates_simps)
  qed
  from origin have nonnull:
    "(\<forall>c \<in> set coordinates_df. fst c \<noteq> Null \<and> lat_of c \<noteq> None \<and> lng_of c \<noteq> None) \<longrightarrow>
       (\<forall>row \<in> set result. lat row \<noteq> None \<and> lng row \<noteq> None \<and> buildingaddress row \<noteq> Null)"
    by metis
  from origin kept nonnull show ?thesis by blast
qed

theorem combine_join_completeness_witness:
  "combine_and_format_data (price_table [example_row]) [(Str ''A'', Some 1, Some 2)] [] =
     Inr [example_result (Some 1) (Some 2) Null] \<and>
   fst (Str ''A'', Some (1::real), Some (2::real)) \<noteq> Null \<and>
   lat_of (Str ''A'', Some (1::real), Some (2::real)) \<noteq> None \<and>
   lng_of (Str ''A'', Some (1::real), Some (2::real)) \<noteq> None \<and>
   (\<exists>c \<in> set [(Str ''A'', Some (1::real), Some (2::real))].
      buildingaddress (example_result (Some 1) (Some 2) Null) = fst c \<and>
      lat (example_result (Some 1) (Some 2) Null) = lat_of c \<and>
      lng (example_result (Some 1) (Some 2) Null) = lng_of c) \<and>
   lat (example_result (Some 1) (Some 2) Null) \<noteq> None \<and>
   lng (example_result (Some 1) (Some 2) Null) \<noteq> None \<and>
   buildingaddress (example_result (Some 1) (Some 2) Null) \<noteq> Null \<and>
   region example_row \<notin> index_of ([] :: (cell \<times> cell) list) \<and>
   district (example_result (Some 1) (Some 2) Null) = Null"
  using combine_join_completeness [OF combine_example [of "Some 1" "Some 2"]]
    combine_example [of "Some 1" "Some 2"]
  by (simp add: lat_of_def lng_of_def index_of_def example_result_def)

text \<open>
  C6 (as stated, refuted). A price row whose price is not convertible, but whose address
  has no coordinate, is dropped by the inner join of line 63 before any conversion: the
  function returns the frame of the other rows and raises nothing.
\<close>

theorem combine_unjoined_row_counterexample:
  "isl (astype_int (medianpredprice
          (example_row\<lparr>buildingaddress := Str ''Z'', medianpredprice := Str ''n/a''\<rparr>))) \<and>
   combine_and_format_data
     (price_table
        [example_row\<lparr>buildingaddress := Str ''Z'', medianpredprice := Str ''n/a''\<rparr>, example_row])
     [(Str ''A'', Some 1, Some 2)] [] = Inr [example_result (Some 1) (Some 2) Null]"
  by (simp add: eval_defs)

text \<open>
  C6 (amended). If a price row whose address is an index label of the coordinate frame
  (a row that the inner join keeps) has a \<^verbatim>\<open>medianpredprice\<close>, \<^verbatim>\<open>transactionscount\<close>,
  \<^verbatim>\<open>built\<close>, \<^verbatim>\<open>numberofunits\<close> or \<^verbatim>\<open>numberoffloors\<close> that \<^verbatim>\<open>astype(int)\<close> does
  not convert (a null, or a string that \<^verbatim>\<open>int\<close> rejects or whose integer does not fit
  64 bits), or a malformed colour, then \<^verbatim>\<open>combine_and_format_data\<close> raises: it returns
  no frame at all, not the frame of the other rows.
\<close>

theorem combine_coercion_failure_is_fatal:
  assumes "p \<in> set (rows prices_df)" and "c \<in> set coordinates_df"
    and "buildingaddress p = fst c"
    and "isl (astype_int (medianpredprice p)) \<or> isl (astype_int (transactionscount p)) \<or>
         isl (astype_int (built p)) \<or> isl (astype_int (numberofunits p)) \<or>
         isl (astype_int (numberoffloors p)) \<or> malformed_colour (colour p)"
  shows "isl (combine_and_format_data prices_df coordinates_df district_df)"
proof (rule ccontr)
  assume "\<not> isl (combine_and_format_data prices_df coordinates_df district_df)"
  then obtain result where
    ok: "combine_and_format_data prices_df coordinates_df district_df = Inr result"
    by (cases "combine_and_format_data prices_df coordinates_df district_df") auto
  from assms(1-3) have "(p, c) \<in> set (join_inner (rows prices_df) coordinates_df)"
    by (simp add: in_join_inner)
  then obtain d where
    "with_coordinates p c d \<in>
       set (join_left (join_inner (rows prices_df) coordinates_df) district_df)"
    using in_join_left_some by blast
  from joined_row_result [OF ok this] have
    "\<not> isl (astype_int (medianpredprice p))" "\<not> isl (astype_int (transactionscount p))"
    "\<not> isl (astype_int (built p))" "\<not> isl (astype_int (numberofunits p))"
    "\<not> isl (astype_int (numberoffloors p))" "\<not> malformed_colour (colour p)"
    by (auto simp: with_coordinates_simps)
  with assms(4) show False by blast
qed

theorem combine_coercion_failure_is_fatal_witness:
  "example_row\<lparr>colour := Str ''10,200''\<rparr> \<in>
     set (rows (price_table [example_row, example_row\<lparr>colour := Str ''10,200''\<rparr>])) \<and>
   (Str ''A'', Some 1, Some 2) \<in> set [(Str ''A'', Some (1::real), Some (2::real))] \<and>
   buildingaddress (example_row\<lparr>colour := Str ''10,200''\<rparr>) =
     fst (Str ''A'', Some (1::real), Some (2::real)) \<and>
   malformed_colour (colour (example_row\<lparr>colour := Str ''10,200''\<rparr>)) \<and>
   isl (combine_and_format_data
          (price_table [example_row, example_row\<lparr>colour := Str ''10,200''\<rparr>])
          [(Str ''A'', Some 1, Some 2)] [])"
  using combine_coercion_failure_is_fatal
    [of "example_row\<lparr>colour := Str ''10,200''\<rparr>"
        "price_table [example_row, example_row\<lparr>colour := Str ''10,200''\<rparr>]"
        "(Str ''A'', Some 1, Some 2)" "[(Str ''A'', Some 1, Some 2)]" "[]"]
  by (simp add: malformed_colour_def example_row_def price_table_def)

text \<open>
  C9. In every row of a frame returned by \<^verbatim>\<open>combine_and_format_data\<close> the colour is a
  string that splits on commas into exactly three fields, and \<^verbatim>\<open>r\<close>, \<^verbatim>\<open>g\<close>, \<^verbatim>\<open>b\<close>
  are the integers of the first, second and third field; in particular a row with the
  colour \<^verbatim>\<open>10,200,30\<close> has \<open>r = 10\<close>, \<open>g = 200\<close>, \<open>b = 30\<close>.
\<close>

theorem combine_colour_split:
  assumes "combine_and_format_data prices_df coordinates_df district_df = Inr result"
    and "row \<in> set result"
  shows "(\<exists>s x y z. colour row = Str s \<and> str_split CHR '','' s = [x, y, z] \<and>
            py_int x = Some (r row) \<and> py_int y = Some (g row) \<and> py_int z = Some (b row)) \<and>
         (colour row = Str ''10,200,30'' \<longrightarrow> r row = 10 \<and> g row = 200 \<and> b row = 30)"
proof -
  from result_row_origin [OF assms] obtain p c d price rgb tc bu nu nf s x y z where
    row: "row = result_of (with_coordinates p c d) price rgb tc bu nu nf" and
    col: "colour p = Str s" "str_split CHR '','' s = [x, y, z]" and
    ints: "astype_int (Str x) = Inr (fst rgb)" "astype_int (Str y) = Inr (fst (snd rgb))"
      "astype_int (Str z) = Inr (snd (snd rgb))"
    by blast
  have c: "colour row = Str s" and rgb: "r row = fst rgb" "g row = fst (snd rgb)" "b row = snd (snd rgb)"
    by (simp_all add: row result_of_simps with_coordinates_simps col)
  have py: "py_int x = Some (r row)" "py_int y = Some (g row)" "py_int z = Some (b row)"
    using ints [THEN astype_int_Str_Inr] by (simp_all add: rgb)
  have "r row = 10 \<and> g row = 200 \<and> b row = 30" if "colour row = Str ''10,200,30''"
  proof -
    from that c have "s = ''10,200,30''" by simp
    with col(2) have "x = ''10''" "y = ''200''" "z = ''30''" by simp_all
    with py show ?thesis
      by (simp add: py_int_def strip_def is_space_def parse_unsigned_def digit_val_def)
  qed
  with c col(2) py show ?thesis by blast
qed

theorem combine_colour_split_witness:
  "combine_and_format_data (price_table [example_row]) [(Str ''A'', Some 1, Some 2)] [] =
     Inr [example_result (Some 1) (Some 2) Null] \<and>
   example_result (Some 1) (Some 2) Null \<in> set [example_result (Some 1) (Some 2) Null] \<and>
   colour (example_result (Some 1) (Some 2) Null) = Str ''10,200,30'' \<and>
   r (example_result (Some 1) (Some 2) Null) = 10 \<and>
   g (example_result (Some 1) (Some 2) Null) = 200 \<and>
   b (example_result (Some 1) (Some 2) Null) = 30"
  using combine_colour_split [OF combine_example [of "Some 1" "Some 2"],
      of "example_result (Some 1) (Some 2) Null"]
    combine_example [of "Some 1" "Some 2"]
  by (simp add: example_result_def)

end
